theory Spec2Isabelle
  imports Complex_Main
begin

section \<open>Strings of the page objects\<close>

text \<open>
  A TypeScript string is modelled as a \<^typ>\<open>string\<close>; one \<^typ>\<open>char\<close> stands for one
  code unit in the range U+0000 .. U+00FF (Basic Latin and Latin-1 Supplement), which holds
  every product name, selector and label text of the suite. On that range the built-ins used
  by the page objects act code unit by code unit, and are written out below as the
  ECMAScript standard defines them.
\<close>

type_synonym selector = string

definition isWhiteSpace :: "char \<Rightarrow> bool" where
  \<comment> \<open>the class \<open>\s\<close> of a regular expression, also what \<open>trim\<close> removes: TAB, LF, VT, FF,
      CR, SPACE and NO-BREAK SPACE are its members below U+0100\<close>
  "isWhiteSpace c \<longleftrightarrow> (of_char c :: nat) \<in> {9, 10, 11, 12, 13, 32, 160}"

definition isDigit :: "char \<Rightarrow> bool" where
  \<comment> \<open>the class \<open>\d\<close>, and the digits of radix 10 for \<open>parseInt\<close> and \<open>parseFloat\<close>\<close>
  "isDigit c \<longleftrightarrow> 48 \<le> (of_char c :: nat) \<and> (of_char c :: nat) \<le> 57"

definition toLowerCase_char :: "char \<Rightarrow> char" where
  \<comment> \<open>A-Z, and the capital letters U+00C0 .. U+00DE without the multiplication sign U+00D7,
      move up by 32; every other code unit below U+0100 is its own lower case\<close>
  "toLowerCase_char c =
     (let n = (of_char c :: nat)
      in if (65 \<le> n \<and> n \<le> 90) \<or> (192 \<le> n \<and> n \<le> 222 \<and> n \<noteq> 215)
         then char_of (n + 32) else c)"

definition toLowerCase :: "string \<Rightarrow> string" where
  "toLowerCase s = map toLowerCase_char s"

definition trim :: "string \<Rightarrow> string" where
  "trim s = rev (dropWhile isWhiteSpace (rev (dropWhile isWhiteSpace s)))"


section \<open>ProductsPage: product identifiers and computed locators\<close>

text \<open>
  \<^verbatim>\<open>.replace(/\s+/g, '-')\<close>: the search runs from the left; where a white space character
  stands, the greedy \<open>\s+\<close> takes the whole run, one hyphen replaces it and the search goes on
  behind the run.
\<close>

function replace_whitespace_runs :: "string \<Rightarrow> string" where
  "replace_whitespace_runs [] = []"
| "replace_whitespace_runs (c # cs) =
     (if isWhiteSpace c then CHR ''-'' # replace_whitespace_runs (dropWhile isWhiteSpace cs)
      else c # replace_whitespace_runs cs)"
  by pat_completeness auto
termination
  by (relation "measure length") (auto simp: length_dropWhile_le less_Suc_eq_le)

definition remove_parentheses :: "string \<Rightarrow> string" where
  \<comment> \<open>\<^verbatim>\<open>.replace(/[()]/g, '')\<close>\<close>
  "remove_parentheses s = filter (\<lambda>c. c \<noteq> CHR ''('' \<and> c \<noteq> CHR '')'') s"

definition remove_periods :: "string \<Rightarrow> string" where
  \<comment> \<open>\<^verbatim>\<open>.replace(/\./g, '')\<close>\<close>
  "remove_periods s = filter (\<lambda>c. c \<noteq> CHR ''.'') s"

definition getProductId :: "string \<Rightarrow> string" where
  "getProductId productName =
     remove_periods (remove_parentheses (replace_whitespace_runs (toLowerCase productName)))"

text \<open>
  The normalization as the specification words it, read in one pass over the display name:
  a run of white space becomes one hyphen, a parenthesis or a period is dropped, and any
  other character is put in lower case.
\<close>

function normalize_name :: "string \<Rightarrow> string" where
  "normalize_name [] = []"
| "normalize_name (c # cs) =
     (if isWhiteSpace c then CHR ''-'' # normalize_name (dropWhile isWhiteSpace cs)
      else if c = CHR ''('' \<or> c = CHR '')'' \<or> c = CHR ''.'' then normalize_name cs
      else toLowerCase_char c # normalize_name cs)"
  by pat_completeness auto
termination
  by (relation "measure length") (auto simp: length_dropWhile_le less_Suc_eq_le)


definition getAddToCartButtonSelector :: "string \<Rightarrow> selector" where
  \<open>getAddToCartButtonSelector productName =
     (let productId = getProductId productName
      in ''[data-test="add-to-cart-'' @ productId @ ''"]'')\<close>

definition ProductsPage_getRemoveButtonSelector :: "string \<Rightarrow> selector" where
  \<open>ProductsPage_getRemoveButtonSelector productName =
     (let productId = getProductId productName
      in ''[data-test="remove-'' @ productId @ ''"]'')\<close>




section \<open>The automation handle and the base page\<close>

text \<open>
  The automation handle belongs to the browser engine. A \<open>page\<close> holds what the engine
  answers in the current state of the browser tab: for each call the page objects make,
  either a value or the error it raises. A page object's action yields the commands it sends
  to the handle, in order, and the outcome of its last await; a query yields its outcome
  only.
\<close>

datatype error = EngineError string

datatype command = Navigate string | Click selector

record page =
  goto_outcome :: "string \<Rightarrow> error + unit"
  click_outcome :: "selector \<Rightarrow> error + unit"
  isVisible_outcome :: "selector \<Rightarrow> error + bool"
  textContent_outcome :: "selector \<Rightarrow> error + string option"
  count_outcome :: "selector \<Rightarrow> error + nat"
  nth_textContent_outcome :: "selector \<Rightarrow> nat \<Rightarrow> error + string option"

definition baseURL :: string where
  "baseURL = ''https://www.saucedemo.com''"

definition goto :: "page \<Rightarrow> string \<Rightarrow> command list \<times> (error + unit)" where
  "goto pg path = ([Navigate (baseURL @ path)], goto_outcome pg (baseURL @ path))"

definition click :: "page \<Rightarrow> selector \<Rightarrow> command list \<times> (error + unit)" where
  "click pg sel = ([Click sel], click_outcome pg sel)"


definition isVisible :: "page \<Rightarrow> selector \<Rightarrow> error + bool" where
  \<comment> \<open>the \<^verbatim>\<open>try\<close> returns the check's answer, the \<^verbatim>\<open>catch\<close> returns false\<close>
  "isVisible pg sel =
     (case isVisible_outcome pg sel of
        Inr visible \<Rightarrow> Inr visible
      | Inl e \<Rightarrow> Inr False)"


section \<open>Numbers read from text\<close>

text \<open>
  A number of the program is modelled by the exact value its text denotes; the rounding of
  that value to a double, and the sign of zero, are left to the engine. \<open>parseInt\<close> is the
  standard's algorithm at radix 10, with \<open>None\<close> for NaN.
\<close>

definition digit_value :: "char \<Rightarrow> nat" where
  "digit_value c = of_char c - 48"

definition decimal :: "string \<Rightarrow> nat" where
  "decimal ds = foldl (\<lambda>n c. 10 * n + digit_value c) 0 ds"



datatype number = NaN | PositiveInfinity | NegativeInfinity | Finite rat

definition negate :: "number \<Rightarrow> number" where
  "negate v =
     (case v of
        NaN \<Rightarrow> NaN
      | PositiveInfinity \<Rightarrow> NegativeInfinity
      | NegativeInfinity \<Rightarrow> PositiveInfinity
      | Finite q \<Rightarrow> Finite (- q))"

definition exponent_part :: "string \<Rightarrow> int" where
  \<comment> \<open>the value of an ExponentPart at the start of the text, 0 where none stands\<close>
  "exponent_part r =
     (case r of
        [] \<Rightarrow> 0
      | c # r' \<Rightarrow>
          if c = CHR ''e'' \<or> c = CHR ''E'' then
            (let neg = (r' \<noteq> [] \<and> hd r' = CHR ''-'');
                 r'' = (if r' \<noteq> [] \<and> (hd r' = CHR ''+'' \<or> hd r' = CHR ''-'') then tl r' else r');
                 ds = takeWhile isDigit r''
             in if ds = [] then 0 else if neg then - int (decimal ds) else int (decimal ds))
          else 0)"

definition scale :: "rat \<Rightarrow> int \<Rightarrow> rat" where
  "scale m e = (if 0 \<le> e then m * 10 ^ nat e else m / 10 ^ nat (- e))"

definition unsigned_literal :: "string \<Rightarrow> number" where
  \<comment> \<open>the value of the longest prefix that is a StrUnsignedDecimalLiteral: \<open>Infinity\<close>, or
      digits with an optional fraction and an optional exponent, or a fraction alone\<close>
  "unsigned_literal u =
     (if take 8 u = ''Infinity'' then PositiveInfinity
      else
        (let d1 = takeWhile isDigit u;
             r1 = dropWhile isDigit u;
             dot = (r1 \<noteq> [] \<and> hd r1 = CHR ''.'');
             d2 = (if dot then takeWhile isDigit (tl r1) else []);
             r2 = (if dot then dropWhile isDigit (tl r1) else r1)
         in if d1 = [] \<and> d2 = [] then NaN
            else Finite (scale (of_nat (decimal d1) + of_nat (decimal d2) / 10 ^ length d2)
                           (exponent_part r2))))"

definition parseFloat :: "string \<Rightarrow> number" where
  "parseFloat inputString =
     (let trimmed = dropWhile isWhiteSpace inputString
      in case trimmed of
           [] \<Rightarrow> NaN
         | c # r \<Rightarrow>
             if c = CHR ''-'' then negate (unsigned_literal r)
             else if c = CHR ''+'' then unsigned_literal r
             else unsigned_literal trimmed)"


section \<open>ProductsPage: cart badge and listings\<close>


definition ProductsPage_productName :: selector where
  "ProductsPage_productName = ''.inventory_item_name''"

definition ProductsPage_productPrice :: selector where
  "ProductsPage_productPrice = ''.inventory_item_price''"

definition addProductToCart :: "page \<Rightarrow> string \<Rightarrow> command list \<times> (error + unit)" where
  "addProductToCart pg productName =
     (let sel = getAddToCartButtonSelector productName in click pg sel)"

definition removeProductFromCart :: "page \<Rightarrow> string \<Rightarrow> command list \<times> (error + unit)" where
  "removeProductFromCart pg productName =
     (let sel = ProductsPage_getRemoveButtonSelector productName in click pg sel)"


text \<open>
  The listing loops: \<open>i\<close> runs from 0 below \<open>count\<close>; a failing await ends the call with
  its error; an element whose text is null or empty adds nothing.
\<close>

function getProductNames_loop :: "page \<Rightarrow> nat \<Rightarrow> nat \<Rightarrow> string list \<Rightarrow> error + string list" where
  "getProductNames_loop pg i count names =
     (if i < count then
        (case nth_textContent_outcome pg ProductsPage_productName i of
           Inl e \<Rightarrow> Inl e
         | Inr name \<Rightarrow>
             getProductNames_loop pg (i + 1) count
               (case name of
                  None \<Rightarrow> names
                | Some t \<Rightarrow> if t = [] then names else names @ [trim t]))
      else Inr names)"
  by pat_completeness auto
termination
  by (relation "measure (\<lambda>(pg, i, count, names). count - i)") auto

definition getProductNames :: "page \<Rightarrow> error + string list" where
  "getProductNames pg =
     (case count_outcome pg ProductsPage_productName of
        Inl e \<Rightarrow> Inl e
      | Inr count \<Rightarrow> getProductNames_loop pg 0 count [])"

fun replace_first_dollar :: "string \<Rightarrow> string" where
  \<comment> \<open>\<^verbatim>\<open>.replace('$', '')\<close>: a string pattern replaces its first occurrence only\<close>
  "replace_first_dollar [] = []"
| "replace_first_dollar (c # cs) = (if c = CHR ''$'' then cs else c # replace_first_dollar cs)"

function getProductPrices_loop :: "page \<Rightarrow> nat \<Rightarrow> nat \<Rightarrow> number list \<Rightarrow> error + number list" where
  "getProductPrices_loop pg i count prices =
     (if i < count then
        (case nth_textContent_outcome pg ProductsPage_productPrice i of
           Inl e \<Rightarrow> Inl e
         | Inr priceText \<Rightarrow>
             getProductPrices_loop pg (i + 1) count
               (case priceText of
                  None \<Rightarrow> prices
                | Some t \<Rightarrow>
                    if t = [] then prices
                    else (let price = parseFloat (replace_first_dollar t) in prices @ [price])))
      else Inr prices)"
  by pat_completeness auto
termination
  by (relation "measure (\<lambda>(pg, i, count, prices). count - i)") auto

definition getProductPrices :: "page \<Rightarrow> error + number list" where
  "getProductPrices pg =
     (case count_outcome pg ProductsPage_productPrice of
        Inl e \<Rightarrow> Inl e
      | Inr count \<Rightarrow> getProductPrices_loop pg 0 count [])"


section \<open>CartPage\<close>

definition CartPage_cartItemName :: selector where
  "CartPage_cartItemName = ''.inventory_item_name''"



definition locator_all :: "page \<Rightarrow> selector \<Rightarrow> error + nat list" where
  \<comment> \<open>\<^verbatim>\<open>locator(sel).all()\<close>: one handle for each matching element, in document order; a
      handle is the element's index\<close>
  "locator_all pg sel =
     (case count_outcome pg sel of Inl e \<Rightarrow> Inl e | Inr n \<Rightarrow> Inr [0..<n])"

fun getCartItemNames_loop :: "page \<Rightarrow> nat list \<Rightarrow> string list \<Rightarrow> error + string list" where
  "getCartItemNames_loop pg [] names = Inr names"
| "getCartItemNames_loop pg (element # itemElements) names =
     (case nth_textContent_outcome pg CartPage_cartItemName element of
        Inl e \<Rightarrow> Inl e
      | Inr text \<Rightarrow>
          getCartItemNames_loop pg itemElements
            (case text of
               None \<Rightarrow> names
             | Some t \<Rightarrow> if t = [] then names else names @ [trim t]))"

definition getCartItemNames :: "page \<Rightarrow> error + string list" where
  "getCartItemNames pg =
     (case locator_all pg CartPage_cartItemName of
        Inl e \<Rightarrow> Inl e
      | Inr itemElements \<Rightarrow> getCartItemNames_loop pg itemElements [])"




section \<open>CheckoutOverviewPage\<close>












section \<open>The runner's configuration\<close>

text \<open>
  \<open>defineConfig\<close> is given the value of the environment variable \<open>CI\<close>, \<open>None\<close> when the
  variable is absent. Times are in milliseconds, as the configuration writes them.
\<close>

record config =
  fullyParallel :: bool
  forbidOnly :: bool
  retries :: nat
  workers :: nat
  use_baseURL :: string
  actionTimeout :: nat
  navigationTimeout :: nat
  timeout :: nat
  expect_timeout :: nat

definition truthy :: "string option \<Rightarrow> bool" where
  \<comment> \<open>an absent variable is undefined; of the strings only the empty one is falsy\<close>
  "truthy v = (case v of None \<Rightarrow> False | Some s \<Rightarrow> s \<noteq> [])"

definition defineConfig :: "string option \<Rightarrow> config" where
  "defineConfig env_CI =
     \<lparr> fullyParallel = False,
       forbidOnly = truthy env_CI,
       retries = (if truthy env_CI then 2 else 0),
       workers = 1,
       use_baseURL = ''https://www.saucedemo.com'',
       actionTimeout = 10000,
       navigationTimeout = 30000,
       timeout = 120000,
       expect_timeout = 5000 \<rparr>"


section \<open>An example state\<close>

text \<open>
  The checkout overview of an order of two products, as the engine would answer for it: the
  cart badge shows 2, the two item names and prices are listed, and the summary labels carry
  the amounts. A selector that is no selector makes the visibility check raise.
\<close>

definition overview_page :: page where
  "overview_page =
     \<lparr> goto_outcome = (\<lambda>url. Inr ()),
       click_outcome = (\<lambda>sel. Inr ()),
       isVisible_outcome =
         (\<lambda>sel. if sel = ''.shopping_cart_badge'' then Inr True
                else if sel = ''[[['' then Inl (EngineError ''Unexpected token'')
                else Inr False),
       textContent_outcome =
         (\<lambda>sel. if sel = ''.shopping_cart_badge'' then Inr (Some '' 2 '')
                else if sel = ''.summary_subtotal_label'' then Inr (Some ''Item total: $39.98'')
                else if sel = ''.summary_tax_label'' then Inr (Some ''Tax: $3.20'')
                else if sel = ''.summary_total_label'' then Inr (Some ''Total: $43.18'')
                else Inl (EngineError ''Timeout 10000ms exceeded'')),
       count_outcome =
         (\<lambda>sel. if sel = ''.inventory_item_name'' \<or> sel = ''.inventory_item_price''
                then Inr 2 else Inr 0),
       nth_textContent_outcome =
         (\<lambda>sel i. if sel = ''.inventory_item_name'' \<and> i < 2
                  then Inr ([Some '' Sauce Labs Backpack'', Some ''Sauce Labs Bike Light ''] ! i)
                  else if sel = ''.inventory_item_price'' \<and> i < 2
                  then Inr ([Some ''$29.99'', Some ''$9.99''] ! i)
                  else Inl (EngineError ''Timeout 10000ms exceeded'')) \<rparr>"


section \<open>The listings as the claims word them\<close>

text \<open>
  The texts that a listing keeps: an element whose text is null or empty adds nothing; the
  others stay in document order.
\<close>

definition present_texts :: "string option list \<Rightarrow> string list" where
  "present_texts texts = [t. Some t \<leftarrow> texts, t \<noteq> []]"

text \<open>
  A price text ``with the leading dollar sign removed'': a dollar sign is removed when it is
  the first character of the text.
\<close>

definition remove_leading_dollar :: "string \<Rightarrow> string" where
  "remove_leading_dollar s = (case s of [] \<Rightarrow> [] | c # r \<Rightarrow> if c = CHR ''$'' then r else s)"

text \<open>A listing with one price element, whose text has its dollar sign between two digits.\<close>

definition odd_price_page :: page where
  "odd_price_page =
     overview_page
       \<lparr> count_outcome := (\<lambda>sel. Inr 1),
         nth_textContent_outcome := (\<lambda>sel i. Inr (Some ''1$2'')) \<rparr>"


section \<open>Facts about characters\<close>

lemma char_eq_nat: "c = d \<longleftrightarrow> (of_char c :: nat) = of_char d"
  by simp

lemma of_char_toLowerCase_char:
  "(of_char (toLowerCase_char c) :: nat) =
     (let n = (of_char c :: nat)
      in if (65 \<le> n \<and> n \<le> 90) \<or> (192 \<le> n \<and> n \<le> 222 \<and> n \<noteq> 215)
         then n + 32 else n)"
  unfolding toLowerCase_char_def Let_def by auto

lemma isWhiteSpace_toLowerCase_char [simp]:
  "isWhiteSpace (toLowerCase_char c) = isWhiteSpace c"
  unfolding isWhiteSpace_def toLowerCase_char_def Let_def by auto

lemma toLowerCase_char_idem [simp]:
  "toLowerCase_char (toLowerCase_char c) = toLowerCase_char c"
  unfolding toLowerCase_char_def Let_def by auto

lemma toLowerCase_char_open [simp]: "toLowerCase_char c = CHR ''('' \<longleftrightarrow> c = CHR ''(''"
  by (simp add: char_eq_nat[of _ "CHR ''(''"] of_char_toLowerCase_char Let_def)

lemma toLowerCase_char_close [simp]: "toLowerCase_char c = CHR '')'' \<longleftrightarrow> c = CHR '')''"
  by (simp add: char_eq_nat[of _ "CHR '')''"] of_char_toLowerCase_char Let_def)

lemma toLowerCase_char_period [simp]: "toLowerCase_char c = CHR ''.'' \<longleftrightarrow> c = CHR ''.''"
  by (simp add: char_eq_nat[of _ "CHR ''.''"] of_char_toLowerCase_char Let_def)

lemma hyphen_not_white [simp]: "\<not> isWhiteSpace CHR ''-''"
  by (simp add: isWhiteSpace_def)

lemma dropWhile_white_toLowerCase:
  "dropWhile isWhiteSpace (map toLowerCase_char cs) = map toLowerCase_char (dropWhile isWhiteSpace cs)"
  by (induction cs) simp_all


section \<open>The product identifier\<close>

lemma getProductId_Nil: "getProductId [] = []"
  by (simp add: getProductId_def toLowerCase_def remove_parentheses_def remove_periods_def)

lemma getProductId_Cons:
  "getProductId (c # cs) =
     (if isWhiteSpace c then CHR ''-'' # getProductId (dropWhile isWhiteSpace cs)
      else if c = CHR ''('' \<or> c = CHR '')'' \<or> c = CHR ''.'' then getProductId cs
      else toLowerCase_char c # getProductId cs)"
  by (simp add: getProductId_def toLowerCase_def remove_parentheses_def remove_periods_def
      dropWhile_white_toLowerCase)

text \<open>
  C1. For every product display name, \<open>getProductId\<close> (lower case first, then every run of
  white space replaced by one hyphen, then the parentheses removed, then the periods removed)
  yields the identifier that the specification describes: the name read once from the left,
  each run of white space turned into a hyphen, parentheses and periods stripped, every other
  character lowercased.
\<close>

theorem getProductId_normalizes: "getProductId productName = normalize_name productName"
proof (induction productName rule: normalize_name.induct)
  case 1
  show ?case by (simp add: getProductId_Nil)
next
  case (2 c cs)
  then show ?case by (simp add: getProductId_Cons)
qed







section \<open>Computed locators and the commands sent\<close>

text \<open>
  C3. For every product name, \<open>addProductToCart\<close> sends one click, on the selector
  \<^verbatim>\<open>[data-test="add-to-cart-ID"]\<close>, and \<open>removeProductFromCart\<close> sends one click, on the
  selector \<^verbatim>\<open>[data-test="remove-ID"]\<close>, where ID is the product identifier of the name;
  each returns what the engine answers to that click.
\<close>

theorem cart_button_clicks:
  \<open>addProductToCart pg productName =
     ([Click (''[data-test="add-to-cart-'' @ getProductId productName @ ''"]'')],
      click_outcome pg (''[data-test="add-to-cart-'' @ getProductId productName @ ''"]''))
   \<and> removeProductFromCart pg productName =
     ([Click (''[data-test="remove-'' @ getProductId productName @ ''"]'')],
      click_outcome pg (''[data-test="remove-'' @ getProductId productName @ ''"]''))\<close>
  by (simp add: addProductToCart_def removeProductFromCart_def click_def
      getAddToCartButtonSelector_def ProductsPage_getRemoveButtonSelector_def Let_def)

text \<open>
  C4. For every selector, \<open>isVisible\<close> returns the answer of the engine's visibility check
  when the check succeeds, returns false when the check raises an error, and never raises
  itself: an element that is not there and a check that failed both give false.
\<close>

theorem isVisible_swallows:
  "(isVisible_outcome pg sel = Inr visible \<longrightarrow> isVisible pg sel = Inr visible)
   \<and> (isVisible_outcome pg sel = Inl e \<longrightarrow> isVisible pg sel = Inr False)
   \<and> isVisible pg sel \<noteq> Inl e'"
  by (simp add: isVisible_def split: sum.splits)

theorem isVisible_swallows_witness:
  "isVisible_outcome overview_page ''.shopping_cart_badge'' = Inr True
   \<and> isVisible overview_page ''.shopping_cart_badge'' = Inr True
   \<and> isVisible_outcome overview_page ''[[['' = Inl (EngineError ''Unexpected token'')
   \<and> isVisible overview_page ''[[['' = Inr False
   \<and> isVisible_outcome overview_page ''#checkout'' = Inr False
   \<and> isVisible overview_page ''#checkout'' = Inr False"
proof -
  have shown: "isVisible_outcome overview_page ''.shopping_cart_badge'' = Inr True"
    and raised: "isVisible_outcome overview_page ''[[['' = Inl (EngineError ''Unexpected token'')"
    and absent: "isVisible_outcome overview_page ''#checkout'' = Inr False"
    by (simp_all add: overview_page_def)
  note answer = isVisible_swallows[THEN conjunct1, rule_format]
  note caught = isVisible_swallows[THEN conjunct2, THEN conjunct1, rule_format]
  show ?thesis
    by (intro conjI shown raised absent answer[OF shown] caught[OF raised] answer[OF absent])
qed


text \<open>
  C7. For every relative path, \<open>goto\<close> sends one navigation, to the base URL followed by
  the path, and returns what the engine answers to it.
\<close>

theorem goto_navigates:
  "goto pg path =
     ([Navigate (''https://www.saucedemo.com'' @ path)],
      goto_outcome pg (''https://www.saucedemo.com'' @ path))"
  by (simp add: goto_def baseURL_def)


section \<open>The configuration\<close>

text \<open>
  C8, as the claim states it, fails where the variable \<open>CI\<close> is set to the empty string: the
  retry count is then 0, not 2.
\<close>

theorem config_retries_counterexample: "retries (defineConfig (Some [])) \<noteq> 2"
  by (simp add: defineConfig_def truthy_def)

text \<open>
  C8, amended. The action timeout is 10 seconds, the navigation timeout 30 seconds, the
  timeout of a scenario 120 seconds, the assertion timeout 5 seconds and the worker count 1,
  whatever the environment; the retry count is 0 when the variable \<open>CI\<close> is absent or empty,
  and 2 when it is set to a string that is not empty.
\<close>

theorem config_values:
  "actionTimeout (defineConfig env_CI) = 10 * 1000
   \<and> navigationTimeout (defineConfig env_CI) = 30 * 1000
   \<and> timeout (defineConfig env_CI) = 120 * 1000
   \<and> expect_timeout (defineConfig env_CI) = 5 * 1000
   \<and> workers (defineConfig env_CI) = 1
   \<and> retries (defineConfig env_CI) = (if env_CI = None \<or> env_CI = Some [] then 0 else 2)"
  by (cases env_CI) (simp_all add: defineConfig_def truthy_def)

section \<open>The cart badge\<close>














section \<open>The amounts of the checkout overview\<close>

lemma period_not_digit [simp]: "\<not> isDigit CHR ''.''"
  by (simp add: isDigit_def)













section \<open>The listings\<close>

lemma present_texts_Cons:
  "present_texts (t # texts) =
     (case t of None \<Rightarrow> [] | Some s \<Rightarrow> if s = [] then [] else [s]) @ present_texts texts"
  by (simp add: present_texts_def split: option.splits)

lemma getProductNames_loop_snapshot:
  assumes "\<forall>j < length texts. nth_textContent_outcome pg ProductsPage_productName j = Inr (texts ! j)"
    and "i \<le> count" and "count = length texts"
  shows "getProductNames_loop pg i count names = Inr (names @ map trim (present_texts (drop i texts)))"
  using assms
proof (induction pg i count names rule: getProductNames_loop.induct)
  case (1 pg i count names)
  show ?case
  proof (cases "i < count")
    case False
    then show ?thesis using "1.prems" by (simp add: present_texts_def)
  next
    case True
    then have here: "nth_textContent_outcome pg ProductsPage_productName i = Inr (texts ! i)"
      and split: "drop i texts = texts ! i # drop (Suc i) texts"
      using "1.prems" by (simp_all add: Cons_nth_drop_Suc)
    have "getProductNames_loop pg (i + 1) count
            (case texts ! i of None \<Rightarrow> names | Some t \<Rightarrow> if t = [] then names else names @ [trim t])
          = Inr ((case texts ! i of None \<Rightarrow> names | Some t \<Rightarrow> if t = [] then names else names @ [trim t])
                 @ map trim (present_texts (drop (i + 1) texts)))"
      using "1.IH"[OF True here] "1.prems" True by simp
    then show ?thesis
      using True here
      by (subst getProductNames_loop.simps) (simp add: split present_texts_Cons split: option.splits)
  qed
qed

lemma getProductPrices_loop_snapshot:
  assumes "\<forall>j < length texts. nth_textContent_outcome pg ProductsPage_productPrice j = Inr (texts ! j)"
    and "i \<le> count" and "count = length texts"
  shows "getProductPrices_loop pg i count prices
     = Inr (prices @ map (\<lambda>t. parseFloat (replace_first_dollar t)) (present_texts (drop i texts)))"
  using assms
proof (induction pg i count prices rule: getProductPrices_loop.induct)
  case (1 pg i count prices)
  show ?case
  proof (cases "i < count")
    case False
    then show ?thesis using "1.prems" by (simp add: present_texts_def)
  next
    case True
    then have here: "nth_textContent_outcome pg ProductsPage_productPrice i = Inr (texts ! i)"
      and split: "drop i texts = texts ! i # drop (Suc i) texts"
      using "1.prems" by (simp_all add: Cons_nth_drop_Suc)
    let ?next = "case texts ! i of None \<Rightarrow> prices
       | Some t \<Rightarrow> if t = [] then prices
                   else (let price = parseFloat (replace_first_dollar t) in prices @ [price])"
    have "getProductPrices_loop pg (i + 1) count ?next
          = Inr (?next @ map (\<lambda>t. parseFloat (replace_first_dollar t)) (present_texts (drop (i + 1) texts)))"
      using "1.IH"[OF True here] "1.prems" True by simp
    then show ?thesis
      using True here
      by (subst getProductPrices_loop.simps) (simp add: split present_texts_Cons split: option.splits)
  qed
qed

lemma getCartItemNames_loop_snapshot:
  assumes "\<forall>j \<in> set elements. j < length texts
             \<and> nth_textContent_outcome pg CartPage_cartItemName j = Inr (texts ! j)"
  shows "getCartItemNames_loop pg elements names
     = Inr (names @ map trim (present_texts (map (\<lambda>j. texts ! j) elements)))"
  using assms
proof (induction elements arbitrary: names)
  case Nil
  show ?case by (simp add: present_texts_def)
next
  case (Cons element elements)
  then show ?case
    by (simp add: present_texts_Cons split: option.splits)
qed

text \<open>
  C5, as the claim states it, fails for the prices: where the text of a price element is
  \<open>1$2\<close>, \<open>getProductPrices\<close> removes the dollar sign between the digits and returns 12,
  while the text with a leading dollar sign removed is the text itself and parses to 1.
\<close>

theorem listing_prices_counterexample:
  "getProductPrices odd_price_page = Inr [Finite 12]
   \<and> parseFloat (remove_leading_dollar ''1$2'') = Finite 1
   \<and> getProductPrices odd_price_page \<noteq> Inr [parseFloat (remove_leading_dollar ''1$2'')]"
proof -
  have code: "getProductPrices odd_price_page = Inr [parseFloat ''12'']"
    by (simp add: getProductPrices_def odd_price_page_def)
  have twelve: "parseFloat ''12'' = Finite 12"
    by (simp add: parseFloat_def unsigned_literal_def isWhiteSpace_def isDigit_def Let_def
        decimal_def digit_value_def exponent_part_def scale_def)
  have one: "parseFloat (remove_leading_dollar ''1$2'') = Finite 1"
    by (simp add: remove_leading_dollar_def parseFloat_def unsigned_literal_def isWhiteSpace_def
        isDigit_def Let_def decimal_def digit_value_def exponent_part_def scale_def)
  show ?thesis unfolding code twelve one by simp
qed

text \<open>
  C5, amended. For every DOM snapshot, that is a number of matching elements and the text of
  each, \<open>getProductNames\<close>, \<open>getCartItemNames\<close> and \<open>getProductPrices\<close> return one value
  for each matching element whose text is neither null nor empty, in the order of the
  elements in the document, unsorted: each name is the text trimmed of surrounding white
  space, and each price is parsed from the text with its first dollar sign removed, wherever
  in the text that sign stands.
\<close>

theorem listings_in_dom_order:
  "(count_outcome pg ''.inventory_item_name'' = Inr (length names)
      \<and> (\<forall>i < length names. nth_textContent_outcome pg ''.inventory_item_name'' i = Inr (names ! i))
     \<longrightarrow> getProductNames pg = Inr (map trim (present_texts names))
         \<and> getCartItemNames pg = Inr (map trim (present_texts names)))
   \<and> (count_outcome pg ''.inventory_item_price'' = Inr (length prices)
      \<and> (\<forall>i < length prices. nth_textContent_outcome pg ''.inventory_item_price'' i = Inr (prices ! i))
     \<longrightarrow> getProductPrices pg
           = Inr (map (\<lambda>t. parseFloat (replace_first_dollar t)) (present_texts prices)))"
proof (intro conjI impI)
  assume a: "count_outcome pg ''.inventory_item_name'' = Inr (length names)
      \<and> (\<forall>i < length names. nth_textContent_outcome pg ''.inventory_item_name'' i = Inr (names ! i))"
  then have each: "\<forall>j < length names. nth_textContent_outcome pg ProductsPage_productName j = Inr (names ! j)"
    by (simp add: ProductsPage_productName_def)
  show "getProductNames pg = Inr (map trim (present_texts names))"
    using a getProductNames_loop_snapshot[OF each, of 0 "length names" "[]"]
    by (simp add: getProductNames_def ProductsPage_productName_def)
  have cart: "\<forall>j \<in> set [0..<length names]. j < length names
             \<and> nth_textContent_outcome pg CartPage_cartItemName j = Inr (names ! j)"
    using a by (simp add: CartPage_cartItemName_def)
  show "getCartItemNames pg = Inr (map trim (present_texts names))"
    using a getCartItemNames_loop_snapshot[OF cart, of "[]"]
    by (simp add: getCartItemNames_def locator_all_def CartPage_cartItemName_def map_nth)
next
  assume a: "count_outcome pg ''.inventory_item_price'' = Inr (length prices)
      \<and> (\<forall>i < length prices. nth_textContent_outcome pg ''.inventory_item_price'' i = Inr (prices ! i))"
  then have each: "\<forall>j < length prices. nth_textContent_outcome pg ProductsPage_productPrice j = Inr (prices ! j)"
    by (simp add: ProductsPage_productPrice_def)
  show "getProductPrices pg
           = Inr (map (\<lambda>t. parseFloat (replace_first_dollar t)) (present_texts prices))"
    using a getProductPrices_loop_snapshot[OF each, of 0 "length prices" "[]"]
    by (simp add: getProductPrices_def ProductsPage_productPrice_def)
qed

theorem listings_in_dom_order_witness:
  "getProductNames overview_page = Inr [''Sauce Labs Backpack'', ''Sauce Labs Bike Light'']
   \<and> getCartItemNames overview_page = Inr [''Sauce Labs Backpack'', ''Sauce Labs Bike Light'']
   \<and> getProductPrices overview_page = Inr [Finite (2999 / 100), Finite (999 / 100)]"
proof -
  let ?names = "[Some '' Sauce Labs Backpack'', Some ''Sauce Labs Bike Light '']"
  let ?prices = "[Some ''$29.99'', Some ''$9.99'']"
  have names: "count_outcome overview_page ''.inventory_item_name'' = Inr (length ?names)
      \<and> (\<forall>i < length ?names. nth_textContent_outcome overview_page ''.inventory_item_name'' i = Inr (?names ! i))"
    by (simp add: overview_page_def)
  have prices: "count_outcome overview_page ''.inventory_item_price'' = Inr (length ?prices)
      \<and> (\<forall>i < length ?prices. nth_textContent_outcome overview_page ''.inventory_item_price'' i = Inr (?prices ! i))"
    by (simp add: overview_page_def)
  have trimmed: "map trim (present_texts ?names) = [''Sauce Labs Backpack'', ''Sauce Labs Bike Light'']"
    by (simp add: present_texts_def trim_def isWhiteSpace_def)
  have p1: "parseFloat ''29.99'' = Finite (2999 / 100)"
    by (simp add: parseFloat_def unsigned_literal_def isWhiteSpace_def isDigit_def Let_def
        decimal_def digit_value_def exponent_part_def scale_def)
  have p2: "parseFloat ''9.99'' = Finite (999 / 100)"
    by (simp add: parseFloat_def unsigned_literal_def isWhiteSpace_def isDigit_def Let_def
        decimal_def digit_value_def exponent_part_def scale_def)
  have parsed: "map (\<lambda>t. parseFloat (replace_first_dollar t)) (present_texts ?prices)
      = [Finite (2999 / 100), Finite (999 / 100)]"
    by (simp add: present_texts_def p1 p2)
  note n = listings_in_dom_order[of overview_page ?names, THEN conjunct1, rule_format, OF names,
      unfolded trimmed]
  note p = listings_in_dom_order[of overview_page _ ?prices, THEN conjunct2, rule_format, OF prices,
      unfolded parsed]
  show ?thesis using n p by (intro conjI) simp_all
qed

end
